theory Spec2Isabelle
  imports Main "HOL-Library.Char_ord" "HOL-Library.List_Lexorder" "HOL-Library.Sublist"
begin

section \<open>Data model of clinic_app/app.py\<close>

text \<open>
  The three SQLAlchemy models are records; a table is the list of its rows in storage
  order. Python integers are unbounded, so every integer column is an \<open>int\<close>. A
  calendar date is (year, month, day); a naive UTC \<open>datetime\<close> is the number of
  microseconds since the epoch. Only equality of dates and the order of datetimes are used.
\<close>

type_synonym date = "int \<times> int \<times> int"
type_synonym datetime = int

record Member =
  member_id :: int
  name :: string
  email :: string
  medical_record :: "string option"
  password_hash :: string

record OutpatientSchedule =
  schedule_id :: int
  date :: date
  time_slot :: string
  doctor_name :: string
  department :: string
  max_quota :: int
  current_quota :: int

text \<open>
  The foreign-key columns \<open>member_id\<close> and \<open>schedule_id\<close> of
  \<open>AppointmentRecord\<close> carry the prefix \<open>appt_\<close>: a record field is a constant
  of the theory, and the two names are taken by the primary keys above.
\<close>

record AppointmentRecord =
  appointment_id :: int
  status :: string
  appt_member_id :: int
  appt_schedule_id :: int
  created_at :: datetime

record database =
  members :: "Member list"
  outpatient_schedules :: "OutpatientSchedule list"
  appointment_records :: "AppointmentRecord list"

text \<open>The property \<open>remaining_quota\<close> of \<open>OutpatientSchedule\<close>.\<close>

definition remaining_quota :: "OutpatientSchedule \<Rightarrow> int" where
  "remaining_quota s = max_quota s - current_quota s"

section \<open>Errors and the database's integers\<close>

text \<open>
  The exceptions the modelled code can raise. A raise is the \<open>Inl\<close> of a result.
\<close>

datatype py_error = ValueError | TypeError | OverflowError

text \<open>
  SQLite holds an INTEGER in 64 bits, signed. Binding a Python integer outside that
  range as a parameter of a statement raises OverflowError, and the statement does
  not run.
\<close>

definition in_int64 :: "int \<Rightarrow> bool" where
  "in_int64 n = (- (2 ^ 63) \<le> n \<and> n < 2 ^ 63)"

text \<open>
  \<open>OutpatientSchedule.query.get(schedule_id)\<close>: the row with that primary key, or
  \<open>None\<close>; OverflowError for a key the database cannot take as a parameter.
\<close>

definition query_get :: "database \<Rightarrow> int \<Rightarrow> py_error + OutpatientSchedule option" where
  "query_get db sid =
     (if in_int64 sid then Inr (find (\<lambda>s. schedule_id s = sid) (outpatient_schedules db))
      else Inl OverflowError)"

text \<open>
  The integer primary key the database assigns to a new row: 1 in an empty table, one
  more than the largest key otherwise.
\<close>

definition next_id :: "int list \<Rightarrow> int" where
  "next_id ids = (if ids = [] then 1 else Max (set ids) + 1)"

section \<open>Helper functions\<close>

text \<open>
  \<open>validate_quota\<close>: \<open>False\<close> for a missing schedule, otherwise whether any
  quota remains. The exception of the lookup passes through.
\<close>

definition validate_quota :: "database \<Rightarrow> int \<Rightarrow> py_error + bool" where
  "validate_quota db sid =
     (case query_get db sid of
        Inl e \<Rightarrow> Inl e
      | Inr None \<Rightarrow> Inr False
      | Inr (Some schedule) \<Rightarrow> Inr (remaining_quota schedule > 0))"

text \<open>
  \<open>create_appointment\<close>, with the database passed in and returned. \<open>now\<close> is the
  value \<open>datetime.utcnow()\<close> gives when the row is inserted (the column default of
  \<open>created_at\<close>). The assignment \<open>schedule.current_quota += 1\<close> is flushed at the
  commit as an UPDATE that sets the column to the value computed in Python, for the
  rows whose primary key is \<open>schedule_id\<close>. The commit binds \<open>member_id\<close> as a
  parameter of the INSERT: outside 64 bits it raises OverflowError and nothing is
  committed. (\<open>schedule_id\<close> is in range once the lookup has returned; SQLite does
  not check the foreign keys unless asked to, and the code does not ask.)
\<close>

definition create_appointment ::
  "database \<Rightarrow> datetime \<Rightarrow> int \<Rightarrow> int \<Rightarrow> py_error + (AppointmentRecord option \<times> database)" where
  "create_appointment db now mid sid =
     (case query_get db sid of
        Inl e \<Rightarrow> Inl e
      | Inr None \<Rightarrow> Inr (None, db)
      | Inr (Some schedule) \<Rightarrow>
          if remaining_quota schedule \<le> 0 then Inr (None, db)
          else if \<not> in_int64 mid then Inl OverflowError
          else
            let appointment =
                  \<lparr>appointment_id = next_id (map appointment_id (appointment_records db)),
                   status = ''Success'',
                   appt_member_id = mid,
                   appt_schedule_id = sid,
                   created_at = now\<rparr>
            in Inr (Some appointment,
                    db\<lparr>outpatient_schedules :=
                          map (\<lambda>s. if schedule_id s = sid
                                   then s\<lparr>current_quota := current_quota schedule + 1\<rparr>
                                   else s)
                              (outpatient_schedules db),
                       appointment_records := appointment_records db @ [appointment]\<rparr>))"

text \<open>
  The database after a call that may have raised: what the call returned it as, or
  the database before the call when it raised.
\<close>

definition db_after :: "database \<Rightarrow> py_error + ('a \<times> database) \<Rightarrow> database" where
  "db_after db res = (case res of Inl e \<Rightarrow> db | Inr (r, db') \<Rightarrow> db')"

text \<open>\<open>get_available_schedules\<close>: the rows of one date; the query has no ORDER BY.\<close>

definition get_available_schedules :: "database \<Rightarrow> date \<Rightarrow> OutpatientSchedule list" where
  "get_available_schedules db target_date =
     filter (\<lambda>s. date s = target_date) (outpatient_schedules db)"


section \<open>Routes\<close>

text \<open>
  The flashed messages, by what the source's text says:
  \<^item> \<open>Login_required_booking\<close>: "log in first to book" (category warning);
  \<^item> \<open>Booking_success\<close>: "booked!" (success);
  \<^item> \<open>Booking_create_failed\<close>: "creating the booking failed, try again later" (danger);
  \<^item> \<open>Slot_full\<close>: "this time slot is fully booked" (danger);
  \<^item> \<open>Login_required_history\<close>: "log in first to see your bookings" (warning).
\<close>

datatype flash_message =
  Login_required_booking
  | Booking_success
  | Booking_create_failed
  | Slot_full
  | Login_required_history

datatype response =
  Redirect_login
  | Redirect_my_appointments
  | Redirect_appointment date
  | Render_appointment date "OutpatientSchedule list"
  | Render_my_appointments "AppointmentRecord list"

datatype http_method = GET | POST

text \<open>
  A request parameter: \<open>Absent\<close>, \<open>Malformed\<close> (present but not parseable), or
  parsed. For the date, \<open>Absent\<close> is a missing or an empty \<open>date\<close> argument (the
  view then takes today) and \<open>datetime.strptime\<close> raises ValueError on a malformed
  one. For the schedule id, \<open>Absent\<close> is a missing form field (\<open>int(None)\<close> raises
  TypeError) and \<open>Malformed\<close> is any text that is not a numeral, the empty one too
  (\<open>int\<close> raises ValueError).
\<close>

datatype 'a param = Absent | Malformed | Parsed 'a

text \<open>
  The view \<open>appointment\<close>. \<open>session\<close> is the member id of the session, when it
  has one; \<open>today\<close> is \<open>date.today()\<close>. An exception of \<open>validate_quota\<close> or of
  \<open>create_appointment\<close> is not caught.
\<close>

definition appointment ::
  "database \<Rightarrow> date \<Rightarrow> datetime \<Rightarrow> int option \<Rightarrow> http_method \<Rightarrow> date param \<Rightarrow> int param
     \<Rightarrow> py_error + (flash_message list \<times> response \<times> database)" where
  "appointment db today now session method date_str form_schedule_id =
     (case session of
        None \<Rightarrow> Inr ([Login_required_booking], Redirect_login, db)
      | Some session_member_id \<Rightarrow>
          (case date_str of
             Malformed \<Rightarrow> Inl ValueError
           | _ \<Rightarrow>
               let target_date = (case date_str of Parsed d \<Rightarrow> d | _ \<Rightarrow> today);
                   schedules = get_available_schedules db target_date
               in if method = POST then
                    (case form_schedule_id of
                       Absent \<Rightarrow> Inl TypeError
                     | Malformed \<Rightarrow> Inl ValueError
                     | Parsed sid \<Rightarrow>
                         (case validate_quota db sid of
                            Inl e \<Rightarrow> Inl e
                          | Inr True \<Rightarrow>
                              (case create_appointment db now session_member_id sid of
                                 Inl e \<Rightarrow> Inl e
                               | Inr (Some appt, db') \<Rightarrow>
                                   Inr ([Booking_success], Redirect_my_appointments, db')
                               | Inr (None, db') \<Rightarrow>
                                   Inr ([Booking_create_failed],
                                        Redirect_appointment target_date, db'))
                          | Inr False \<Rightarrow>
                              Inr ([Slot_full], Redirect_appointment target_date, db)))
                  else Inr ([], Render_appointment target_date schedules, db)))"

text \<open>
  The query of \<open>my_appointments\<close>: the rows of one member, ordered by
  \<open>created_at\<close> descending. Rows with equal \<open>created_at\<close> keep their table order
  (SQL leaves their order open; no theorem below depends on it).
\<close>

definition list_by_member :: "database \<Rightarrow> int \<Rightarrow> AppointmentRecord list" where
  "list_by_member db mid =
     sort_key (\<lambda>a. - created_at a) (filter (\<lambda>a. appt_member_id a = mid) (appointment_records db))"

definition my_appointments :: "database \<Rightarrow> int option \<Rightarrow> flash_message list \<times> response" where
  "my_appointments db session =
     (case session of
        None \<Rightarrow> ([Login_required_history], Redirect_login)
      | Some session_member_id \<Rightarrow>
          ([], Render_my_appointments (list_by_member db session_member_id)))"

section \<open>Initial data\<close>

text \<open>
  The seed strings are Chinese; they are given as their UTF-8 bytes: the test member's
  name, and the doctors and departments of the three demo schedules.
\<close>

definition utf8 :: "nat list \<Rightarrow> string" where
  "utf8 bs = map char_of bs"

definition empty_database :: database where
  "empty_database = \<lparr>members = [], outpatient_schedules = [], appointment_records = []\<rparr>"

definition demo_schedules :: "date \<Rightarrow> OutpatientSchedule list" where
  "demo_schedules today =
     [\<lparr>schedule_id = 1, date = today, time_slot = ''09:00-10:00'',
       doctor_name = utf8 [231, 142, 139, 229, 164, 167, 230, 152, 142],
       department = utf8 [229, 133, 167, 231, 167, 145],
       max_quota = 10, current_quota = 2\<rparr>,
      \<lparr>schedule_id = 2, date = today, time_slot = ''10:00-11:00'',
       doctor_name = utf8 [230, 158, 151, 229, 176, 143, 230, 133, 167],
       department = utf8 [229, 176, 143, 229, 133, 146, 231, 167, 145],
       max_quota = 8, current_quota = 8\<rparr>,
      \<lparr>schedule_id = 3, date = today, time_slot = ''14:00-15:00'',
       doctor_name = utf8 [233, 153, 179, 230, 150, 135, 232, 177, 170],
       department = utf8 [233, 170, 168, 231, 167, 145],
       max_quota = 5, current_quota = 1\<rparr>]"

text \<open>
  \<open>init_db\<close>, after \<open>db.create_all()\<close>. \<open>pw_hash\<close> is what
  \<open>bcrypt.generate_password_hash\<close> returns for the test password (it is salted at
  random). The tables are empty where rows are added, so the keys assigned are 1, 2, 3.
\<close>

definition init_db :: "database \<Rightarrow> date \<Rightarrow> string \<Rightarrow> database" where
  "init_db db today pw_hash =
     (let db1 = (if members db = [] then
                   db\<lparr>members :=
                        [\<lparr>member_id = 1,
                          name = utf8 [230, 184, 172, 232, 169, 166, 230, 156, 131, 229, 147, 161],
                          email = ''test@example.com'',
                          medical_record = Some ''MR001'',
                          password_hash = pw_hash\<rparr>]\<rparr>
                 else db)
      in if outpatient_schedules db1 = [] then
           db1\<lparr>outpatient_schedules := demo_schedules today\<rparr>
         else db1)"

section \<open>Stores, runs and example data\<close>

text \<open>
  \<open>schedule_id\<close> is declared \<open>primary_key=True\<close>: no two rows of a store share it.
\<close>

definition pk_unique :: "database \<Rightarrow> bool" where
  "pk_unique db = distinct (map schedule_id (outpatient_schedules db))"

text \<open>The quota invariant of a store.\<close>

definition quota_inv :: "database \<Rightarrow> bool" where
  "quota_inv db =
     (\<forall>s \<in> set (outpatient_schedules db). 0 \<le> current_quota s \<and> current_quota s \<le> max_quota s)"

text \<open>
  The operations that may write to the database, as requests served one after the
  other: a direct call of \<open>create_appointment\<close>, and a request to the view
  \<open>appointment\<close>. A request that raises leaves the database as it was. The other
  views (\<open>index\<close>, \<open>login\<close>, \<open>logout\<close>, \<open>my_appointments\<close>) write nothing.
\<close>

datatype request =
  Create_appointment datetime int int
  | Appointment_view date datetime "int option" http_method "date param" "int param"

fun handle :: "database \<Rightarrow> request \<Rightarrow> database" where
  "handle db (Create_appointment now mid sid) = db_after db (create_appointment db now mid sid)"
| "handle db (Appointment_view today now session method date_str form_schedule_id) =
     (case appointment db today now session method date_str form_schedule_id of
        Inl e \<Rightarrow> db
      | Inr (fl, resp, db') \<Rightarrow> db')"

definition serve :: "database \<Rightarrow> request list \<Rightarrow> database" where
  "serve db reqs = foldl handle db reqs"

text \<open>
  A run of calls \<open>create_appointment(member_id, schedule_id)\<close>, each with the clock
  value of its insert, and what each call did: the exception it raised, or what it
  returned. A call that raised leaves the database to the next call as it was.
\<close>

fun run_bookings ::
  "database \<Rightarrow> (datetime \<times> int \<times> int) list
     \<Rightarrow> (py_error + AppointmentRecord option) list \<times> database" where
  "run_bookings db [] = ([], db)"
| "run_bookings db ((now, mid, sid) # reqs) =
     (case create_appointment db now mid sid of
        Inl e \<Rightarrow> (case run_bookings db reqs of (rs, db2) \<Rightarrow> (Inl e # rs, db2))
      | Inr (r, db1) \<Rightarrow> (case run_bookings db1 reqs of (rs, db2) \<Rightarrow> (Inr r # rs, db2)))"

text \<open>Whether a call returned an appointment, and the appointments of a run.\<close>

fun is_granted :: "py_error + AppointmentRecord option \<Rightarrow> bool" where
  "is_granted (Inl e) = False"
| "is_granted (Inr None) = False"
| "is_granted (Inr (Some a)) = True"

fun granted :: "(py_error + AppointmentRecord option) list \<Rightarrow> AppointmentRecord list" where
  "granted [] = []"
| "granted (Inl e # rs) = granted rs"
| "granted (Inr None # rs) = granted rs"
| "granted (Inr (Some a) # rs) = a # granted rs"

text \<open>The number of calls of a run made for member \<open>m\<close> that returned an appointment.\<close>

definition bookings_by ::
  "int \<Rightarrow> (datetime \<times> int \<times> int) list \<Rightarrow> (py_error + AppointmentRecord option) list \<Rightarrow> nat" where
  "bookings_by m reqs outs =
     length (filter (\<lambda>((now, mid, sid), r). mid = m \<and> is_granted r) (zip reqs outs))"

text \<open>
  The database right after \<open>init_db\<close> on a new file, on 2026-11-03, and a stand-in
  for the password check: it raises ValueError for a password of more than 72 bytes,
  as bcrypt does, and otherwise accepts the password \<open>test1234\<close> only for the
  stored hash of the test member.
\<close>

definition seeded :: database where
  "seeded = init_db empty_database (2026, 11, 3) ''hash:test1234''"



definition example_requests :: "request list" where
  "example_requests =
     [Create_appointment 5 1 1,
      Appointment_view (2026, 11, 3) 6 (Some 1) POST Absent (Parsed 2),
      Appointment_view (2026, 11, 3) 7 (Some 1) POST Absent (Parsed 3),
      Create_appointment 8 1 99]"

text \<open>
  A store whose afternoon schedule was entered before its morning schedule, and two
  runs of bookings: one where the clock is set back between two inserts, one with
  two members and a rising clock.
\<close>

definition unordered_store :: database where
  "unordered_store =
     \<lparr>members = [],
      outpatient_schedules =
        [\<lparr>schedule_id = 1, date = (2026, 11, 3), time_slot = ''14:00-15:00'',
          doctor_name = ''Chen'', department = ''Orthopedics'',
          max_quota = 5, current_quota = 1\<rparr>,
         \<lparr>schedule_id = 2, date = (2026, 11, 3), time_slot = ''09:00-10:00'',
          doctor_name = ''Wang'', department = ''Internal medicine'',
          max_quota = 10, current_quota = 2\<rparr>],
      appointment_records = []\<rparr>"

definition backward_clock :: "(datetime \<times> int \<times> int) list" where
  "backward_clock = [(5, 1, 1), (3, 1, 1)]"

definition two_members :: "(datetime \<times> int \<times> int) list" where
  "two_members = [(5, 1, 1), (6, 2, 2), (8, 1, 3), (9, 1, 7)]"

section \<open>What one call of \<open>create_appointment\<close> does\<close>

lemma query_get_Some:
  "query_get db sid = Inr (Some s) \<longleftrightarrow>
   in_int64 sid \<and> find (\<lambda>r. schedule_id r = sid) (outpatient_schedules db) = Some s"
  by (simp add: query_get_def)

lemma query_get_None:
  "query_get db sid = Inr None \<longleftrightarrow>
   in_int64 sid \<and> sid \<notin> schedule_id ` set (outpatient_schedules db)"
  by (auto simp: query_get_def find_None_iff)

lemma create_appointment_cases:
  "create_appointment db now mid sid = Inl OverflowError \<or>
   create_appointment db now mid sid = Inr (None, db) \<or>
   (\<exists>schedule. query_get db sid = Inr (Some schedule) \<and> 0 < remaining_quota schedule \<and>
      in_int64 mid \<and>
      create_appointment db now mid sid =
        Inr (Some \<lparr>appointment_id = next_id (map appointment_id (appointment_records db)),
               status = ''Success'', appt_member_id = mid, appt_schedule_id = sid,
               created_at = now\<rparr>,
         db\<lparr>outpatient_schedules :=
               map (\<lambda>s. if schedule_id s = sid
                        then s\<lparr>current_quota := current_quota schedule + 1\<rparr> else s)
                   (outpatient_schedules db),
            appointment_records := appointment_records db @
              [\<lparr>appointment_id = next_id (map appointment_id (appointment_records db)),
                status = ''Success'', appt_member_id = mid, appt_schedule_id = sid,
                created_at = now\<rparr>]\<rparr>))"
  by (simp add: create_appointment_def query_get_def Let_def split: option.splits)

lemma find_pk_unique:
  assumes "find (\<lambda>s. f s = k) xs = Some x" and "y \<in> set xs" and "f y = k"
    and "distinct (map f xs)"
  shows "y = x"
proof -
  from assms(1) have "x \<in> set xs" and "f x = k"
    by (auto simp: find_Some_iff)
  with assms(2,3,4) show ?thesis
    by (auto simp: distinct_map dest: inj_onD)
qed

lemma find_map_update:
  assumes "find (\<lambda>s. f s = k) xs = Some x" and "\<And>s. f (g s) = f s"
  shows "find (\<lambda>s. f s = k) (map (\<lambda>s. if f s = k then g s else s) xs) = Some (g x)"
  using assms by (induction xs) (auto split: if_splits)

lemma create_appointment_step:
  assumes "query_get db sid = Inr (Some s)"
  shows "(remaining_quota s \<le> 0 \<longrightarrow> create_appointment db now mid sid = Inr (None, db)) \<and>
         (0 < remaining_quota s \<and> in_int64 mid \<longrightarrow>
            (\<exists>a. create_appointment db now mid sid =
                   Inr (Some a, db_after db (create_appointment db now mid sid))) \<and>
            query_get (db_after db (create_appointment db now mid sid)) sid =
              Inr (Some (s\<lparr>current_quota := current_quota s + 1\<rparr>)))"
proof (cases "0 < remaining_quota s \<and> in_int64 mid")
  case False
  with assms show ?thesis by (auto simp: create_appointment_def)
next
  case True
  from assms have range: "in_int64 sid"
    and found: "find (\<lambda>r. schedule_id r = sid) (outpatient_schedules db) = Some s"
    by (simp_all add: query_get_Some)
  have "find (\<lambda>r. schedule_id r = sid)
          (map (\<lambda>r. if schedule_id r = sid then r\<lparr>current_quota := current_quota s + 1\<rparr> else r)
             (outpatient_schedules db)) =
        Some (s\<lparr>current_quota := current_quota s + 1\<rparr>)"
    using find_map_update [of schedule_id sid "outpatient_schedules db" s
        "\<lambda>r. r\<lparr>current_quota := current_quota s + 1\<rparr>"] found
    by simp
  with assms True range show ?thesis
    by (simp add: create_appointment_def Let_def query_get_def db_after_def)
qed

lemma schedule_ids_update:
  "map schedule_id (map (\<lambda>s. if schedule_id s = sid then s\<lparr>current_quota := c\<rparr> else s) xs) =
   map schedule_id xs"
  by (induction xs) auto

lemma schedule_ids_create:
  "map schedule_id (outpatient_schedules (db_after db (create_appointment db now mid sid))) =
   map schedule_id (outpatient_schedules db)"
  using create_appointment_cases [of db now mid sid]
  by (auto simp: schedule_ids_update db_after_def)

lemma pk_unique_create:
  "pk_unique db \<Longrightarrow> pk_unique (db_after db (create_appointment db now mid sid))"
  by (simp add: pk_unique_def schedule_ids_create)

lemma quota_inv_create:
  assumes "pk_unique db" and "quota_inv db"
  shows "quota_inv (db_after db (create_appointment db now mid sid))"
proof -
  consider (unchanged) "db_after db (create_appointment db now mid sid) = db"
    | (booked) schedule where "query_get db sid = Inr (Some schedule)"
        "0 < remaining_quota schedule"
        "outpatient_schedules (db_after db (create_appointment db now mid sid)) =
           map (\<lambda>s. if schedule_id s = sid
                    then s\<lparr>current_quota := current_quota schedule + 1\<rparr> else s)
               (outpatient_schedules db)"
    using create_appointment_cases [of db now mid sid] by (auto simp: db_after_def)
  then show ?thesis
  proof cases
    case unchanged
    with assms(2) show ?thesis by simp
  next
    case booked
    from booked(1)
    have found: "find (\<lambda>r. schedule_id r = sid) (outpatient_schedules db) = Some schedule"
      by (simp add: query_get_Some)
    have same: "s = schedule" if "s \<in> set (outpatient_schedules db)" "schedule_id s = sid" for s
      using find_pk_unique [of schedule_id sid "outpatient_schedules db" schedule s]
        found that assms(1)
      by (simp add: pk_unique_def)
    have "schedule \<in> set (outpatient_schedules db)"
      using found by (auto simp: find_Some_iff)
    with assms(2) have "0 \<le> current_quota schedule" by (simp add: quota_inv_def)
    with booked(2) same assms(2) show ?thesis
      unfolding quota_inv_def booked(3) by (auto simp: remaining_quota_def)
  qed
qed

text \<open>
  A schedule id outside 64 bits: the lookup raises, and so do the helpers and the
  view; the request leaves the database as it was.
\<close>

lemma out_of_range_raises:
  assumes "\<not> in_int64 sid"
  shows "query_get db sid = Inl OverflowError \<and>
         validate_quota db sid = Inl OverflowError \<and>
         create_appointment db now mid sid = Inl OverflowError \<and>
         appointment db today now (Some mid) POST (Parsed d) (Parsed sid) = Inl OverflowError \<and>
         appointment db today now (Some mid) POST Absent (Parsed sid) = Inl OverflowError \<and>
         handle db (Create_appointment now mid sid) = db \<and>
         handle db (Appointment_view today now session meth dstr (Parsed sid)) = db"
  using assms
  by (simp add: query_get_def validate_quota_def create_appointment_def appointment_def
      db_after_def Let_def split: option.splits param.splits)

section \<open>The quota invariant\<close>

lemma appointment_db_effect:
  assumes "appointment db today now session meth dstr form_sid = Inr (fl, resp, db')"
  shows "db' = db \<or> (\<exists>mid sid. db' = db_after db (create_appointment db now mid sid))"
proof (cases "\<exists>mid sid. session = Some mid \<and> meth = POST \<and> dstr \<noteq> Malformed \<and>
    form_sid = Parsed sid \<and> validate_quota db sid = Inr True")
  case True
  then obtain mid sid where s: "session = Some mid" "meth = POST" "dstr \<noteq> Malformed"
    "form_sid = Parsed sid" "validate_quota db sid = Inr True"
    by blast
  show ?thesis
  proof (cases "create_appointment db now mid sid")
    case (Inl e)
    with assms s show ?thesis
      by (simp add: appointment_def Let_def split: param.splits)
  next
    case (Inr pair)
    obtain r db1 where "pair = (r, db1)" by (cases pair)
    with Inr assms s have "db' = db1"
      by (cases r) (simp_all add: appointment_def Let_def split: param.splits)
    with Inr \<open>pair = (r, db1)\<close> have "db' = db_after db (create_appointment db now mid sid)"
      by (simp add: db_after_def)
    then show ?thesis by blast
  qed
next
  case False
  have "db' = db"
  proof (cases session)
    case None
    with assms show ?thesis by (simp add: appointment_def)
  next
    case (Some mid)
    show ?thesis
    proof (cases "meth = POST")
      case notpost: False
      with assms Some show ?thesis
        by (simp add: appointment_def Let_def split: param.splits)
    next
      case post: True
      show ?thesis
      proof (cases form_sid)
        case Absent
        with assms Some post show ?thesis
          by (simp add: appointment_def Let_def split: param.splits)
      next
        case Malformed
        with assms Some post show ?thesis
          by (simp add: appointment_def Let_def split: param.splits)
      next
        case (Parsed sid)
        show ?thesis
        proof (cases "validate_quota db sid")
          case (Inl e)
          with assms Some post Parsed show ?thesis
            by (simp add: appointment_def Let_def split: param.splits)
        next
          case (Inr ok)
          from assms Some have "dstr \<noteq> Malformed"
            by (auto simp: appointment_def)
          with False Some post Parsed Inr have "ok = False" by auto
          with assms Some post Parsed Inr show ?thesis
            by (simp add: appointment_def Let_def split: param.splits)
        qed
      qed
    qed
  qed
  then show ?thesis by blast
qed

lemma handle_effect:
  "handle db req = db \<or>
   (\<exists>now mid sid. handle db req = db_after db (create_appointment db now mid sid))"
proof (cases req)
  case (Create_appointment now mid sid)
  then show ?thesis by auto
next
  case (Appointment_view today now session meth dstr form_sid)
  show ?thesis
  proof (cases "appointment db today now session meth dstr form_sid")
    case (Inl e)
    with Appointment_view show ?thesis by simp
  next
    case (Inr triple)
    obtain fl resp db' where "triple = (fl, resp, db')" by (cases triple)
    with Inr Appointment_view
      appointment_db_effect [of db today now session meth dstr form_sid fl resp db']
    show ?thesis by auto
  qed
qed

lemma handle_inv:
  assumes "pk_unique db" and "quota_inv db"
  shows "pk_unique (handle db req) \<and> quota_inv (handle db req)"
  using handle_effect [of db req] assms
  by (auto simp: pk_unique_create quota_inv_create)

lemma serve_inv:
  "pk_unique db \<Longrightarrow> quota_inv db \<Longrightarrow> pk_unique (serve db reqs) \<and> quota_inv (serve db reqs)"
  unfolding serve_def
proof (induction reqs arbitrary: db)
  case Nil
  then show ?case by simp
next
  case (Cons req reqs)
  from handle_inv [OF Cons.prems, of req] Cons.IH [of "handle db req"]
  show ?case by simp
qed

lemma quota_inv_init: "quota_inv (init_db empty_database today pw_hash)"
  by (simp add: quota_inv_def init_db_def empty_database_def demo_schedules_def)

lemma pk_unique_init: "pk_unique (init_db empty_database today pw_hash)"
  by (simp add: pk_unique_def init_db_def empty_database_def demo_schedules_def)

section \<open>The seeded database\<close>

lemma seeded_schedules: "outpatient_schedules seeded = demo_schedules (2026, 11, 3)"
  by (simp add: seeded_def init_db_def empty_database_def demo_schedules_def)

lemma seeded_records: "appointment_records seeded = []"
  by (simp add: seeded_def init_db_def empty_database_def)

lemma seeded_get2: "query_get seeded 2 = Inr (Some (demo_schedules (2026, 11, 3) ! 1))"
  by (simp add: query_get_def in_int64_def seeded_schedules demo_schedules_def)

lemma seeded_get3: "query_get seeded 3 = Inr (Some (demo_schedules (2026, 11, 3) ! 2))"
  by (simp add: query_get_def in_int64_def seeded_schedules demo_schedules_def)

lemma seeded_get99: "query_get seeded 99 = Inr None"
  by (simp add: query_get_def in_int64_def seeded_schedules demo_schedules_def)

lemma seeded_full2: "remaining_quota (demo_schedules (2026, 11, 3) ! 1) \<le> 0"
  by (simp add: remaining_quota_def demo_schedules_def)

lemma seeded_rejects2: "create_appointment seeded now mid 2 = Inr (None, seeded)"
  using create_appointment_step [OF seeded_get2, of now mid] seeded_full2 by blast

text \<open>
  Claim C1. In every state reached from the freshly initialised database by serving
  requests, every schedule has \<open>0 \<le> current_quota \<le> max_quota\<close>; and
  \<open>create_appointment\<close>, the one operation that writes a quota, keeps the invariant
  from any store with unique schedule ids (whether it returns or raises), as does any
  sequence of requests. So a booking against a schedule with
  \<open>current_quota = max_quota\<close> never raises \<open>current_quota\<close> above \<open>max_quota\<close>.
\<close>

theorem quota_invariant:
  "quota_inv (serve (init_db empty_database today pw_hash) reqs) \<and>
   (pk_unique db \<and> quota_inv db \<longrightarrow>
      quota_inv (db_after db (create_appointment db now mid sid))) \<and>
   (pk_unique db \<and> quota_inv db \<longrightarrow>
      (\<forall>r db'. create_appointment db now mid sid = Inr (r, db') \<longrightarrow> quota_inv db')) \<and>
   (pk_unique db \<and> quota_inv db \<longrightarrow> quota_inv (serve db reqs))"
proof -
  have ret: "quota_inv db'"
    if "pk_unique db" "quota_inv db" "create_appointment db now mid sid = Inr (r, db')" for r db'
    using quota_inv_create [OF that(1,2), of now mid sid] that(3) by (simp add: db_after_def)
  then show ?thesis
    by (simp add: serve_inv pk_unique_init quota_inv_init quota_inv_create)
qed

theorem quota_invariant_witness:
  "quota_inv (serve seeded example_requests) \<and>
   map current_quota (outpatient_schedules (serve seeded example_requests)) = [3, 8, 2] \<and>
   map max_quota (outpatient_schedules (serve seeded example_requests)) = [10, 8, 5] \<and>
   pk_unique seeded \<and> quota_inv seeded \<and>
   create_appointment seeded 0 1 2 = Inr (None, seeded) \<and>
   quota_inv (db_after seeded (create_appointment seeded 0 1 2))"
proof -
  have p: "pk_unique seeded" unfolding seeded_def by (rule pk_unique_init)
  have q: "quota_inv seeded" unfolding seeded_def by (rule quota_inv_init)
  have c: "create_appointment seeded 0 1 2 = Inr (None, seeded)"
    by (rule seeded_rejects2)
  have run: "outpatient_schedules (serve seeded example_requests) =
     [(demo_schedules (2026, 11, 3) ! 0)\<lparr>current_quota := 3\<rparr>,
      demo_schedules (2026, 11, 3) ! 1,
      (demo_schedules (2026, 11, 3) ! 2)\<lparr>current_quota := 2\<rparr>]"
    by (simp add: serve_def example_requests_def appointment_def validate_quota_def
        create_appointment_def query_get_def in_int64_def db_after_def seeded_schedules
        demo_schedules_def remaining_quota_def Let_def)
  have vals: "map current_quota (outpatient_schedules (serve seeded example_requests)) = [3, 8, 2]"
    "map max_quota (outpatient_schedules (serve seeded example_requests)) = [10, 8, 5]"
    by (simp_all add: run demo_schedules_def)
  note inv = quota_invariant [of "(2026, 11, 3)" "''hash:test1234''" example_requests seeded 0 1 2]
  from inv have s: "quota_inv (serve seeded example_requests)"
    unfolding seeded_def by blast
  from inv p q have a: "quota_inv (db_after seeded (create_appointment seeded 0 1 2))"
    by blast
  from s vals p q c a show ?thesis by blast
qed

section \<open>Rejected bookings\<close>

text \<open>
  Claim C3. A booking against a schedule whose \<open>current_quota\<close> equals
  \<open>max_quota\<close> is rejected as a full slot: \<open>validate_quota\<close> is false,
  \<open>create_appointment\<close> returns \<open>None\<close>, the view flashes the slot-full message,
  and the schedule, with its \<open>current_quota\<close>, is what it was.
\<close>

theorem full_schedule_rejected:
  assumes "query_get db sid = Inr (Some s)" and "current_quota s = max_quota s"
  shows "validate_quota db sid = Inr False \<and>
         create_appointment db now mid sid = Inr (None, db) \<and>
         query_get (db_after db (create_appointment db now mid sid)) sid = Inr (Some s) \<and>
         appointment db today now (Some mid) POST (Parsed d) (Parsed sid) =
           Inr ([Slot_full], Redirect_appointment d, db) \<and>
         appointment db today now (Some mid) POST Absent (Parsed sid) =
           Inr ([Slot_full], Redirect_appointment today, db)"
  using assms
  by (simp add: create_appointment_def validate_quota_def appointment_def remaining_quota_def
      db_after_def)

theorem full_schedule_rejected_witness:
  "query_get seeded 2 = Inr (Some (demo_schedules (2026, 11, 3) ! 1)) \<and>
   current_quota (demo_schedules (2026, 11, 3) ! 1) = 8 \<and>
   max_quota (demo_schedules (2026, 11, 3) ! 1) = 8 \<and>
   create_appointment seeded 0 1 2 = Inr (None, seeded) \<and>
   query_get (db_after seeded (create_appointment seeded 0 1 2)) 2 =
     Inr (Some (demo_schedules (2026, 11, 3) ! 1)) \<and>
   appointment seeded (2026, 11, 3) 0 (Some 1) POST Absent (Parsed 2) =
     Inr ([Slot_full], Redirect_appointment (2026, 11, 3), seeded)"
proof -
  have cur: "current_quota (demo_schedules (2026, 11, 3) ! 1) = 8"
    and max: "max_quota (demo_schedules (2026, 11, 3) ! 1) = 8"
    by (simp_all add: demo_schedules_def)
  from cur max have full: "current_quota (demo_schedules (2026, 11, 3) ! 1) =
      max_quota (demo_schedules (2026, 11, 3) ! 1)"
    by (simp only:)
  note rejected =
    full_schedule_rejected [OF seeded_get2 full, of 0 1 "(2026, 11, 3)" "(2026, 11, 3)"]
  from rejected have none: "create_appointment seeded 0 1 2 = Inr (None, seeded)"
    by blast
  from rejected
  have kept: "query_get (db_after seeded (create_appointment seeded 0 1 2)) 2 =
      Inr (Some (demo_schedules (2026, 11, 3) ! 1))"
    by blast
  from rejected
  have view: "appointment seeded (2026, 11, 3) 0 (Some 1) POST Absent (Parsed 2) =
     Inr ([Slot_full], Redirect_appointment (2026, 11, 3), seeded)"
    by blast
  from seeded_get2 cur max none kept view show ?thesis by blast
qed

text \<open>
  Claim C4, as the code has it. When a booking is rejected because the schedule's
  quota is exhausted, \<open>create_appointment\<close> returns \<open>None\<close> and writes nothing: the
  appointment table is what it was (no entry of any status is appended) and so are the
  schedules; the view flashes the slot-full message and leaves the database as it was.
\<close>

theorem exhausted_ledger_unchanged:
  assumes "query_get db sid = Inr (Some s)" and "remaining_quota s \<le> 0"
  shows "create_appointment db now mid sid = Inr (None, db) \<and>
         appointment_records (db_after db (create_appointment db now mid sid)) =
           appointment_records db \<and>
         outpatient_schedules (db_after db (create_appointment db now mid sid)) =
           outpatient_schedules db \<and>
         handle db (Appointment_view today now (Some mid) POST date_str (Parsed sid)) = db \<and>
         (\<forall>fl resp db'.
            appointment db today now (Some mid) POST date_str (Parsed sid) = Inr (fl, resp, db') \<longrightarrow>
            fl = [Slot_full])"
  using assms
  by (auto simp: create_appointment_def validate_quota_def appointment_def Let_def db_after_def
      split: param.splits)

text \<open>
  The seeded schedule 2 is full (8 of 8). A booking against it returns \<open>None\<close> and
  the appointment table stays empty: no entry with status \<open>Failed\<close> is written.
\<close>

theorem exhausted_ledger_counterexample:
  "query_get seeded 2 = Inr (Some (demo_schedules (2026, 11, 3) ! 1)) \<and>
   remaining_quota (demo_schedules (2026, 11, 3) ! 1) = 0 \<and>
   create_appointment seeded 0 1 2 = Inr (None, seeded) \<and>
   appointment_records (db_after seeded (create_appointment seeded 0 1 2)) = [] \<and>
   \<not> (\<exists>a \<in> set (appointment_records (db_after seeded (create_appointment seeded 0 1 2))).
         status a = ''Failed'')"
proof -
  have r: "remaining_quota (demo_schedules (2026, 11, 3) ! 1) = 0"
    by (simp add: remaining_quota_def demo_schedules_def)
  have c: "create_appointment seeded 0 1 2 = Inr (None, seeded)"
    by (rule seeded_rejects2)
  have l: "appointment_records (db_after seeded (create_appointment seeded 0 1 2)) = []"
    by (simp add: c db_after_def seeded_records)
  then have n: "\<not> (\<exists>a \<in> set (appointment_records
      (db_after seeded (create_appointment seeded 0 1 2))). status a = ''Failed'')"
    by simp
  from seeded_get2 r c l n show ?thesis by blast
qed

theorem exhausted_ledger_unchanged_witness:
  "query_get seeded 2 = Inr (Some (demo_schedules (2026, 11, 3) ! 1)) \<and>
   remaining_quota (demo_schedules (2026, 11, 3) ! 1) \<le> 0 \<and>
   create_appointment seeded 0 1 2 = Inr (None, seeded) \<and>
   appointment_records (db_after seeded (create_appointment seeded 0 1 2)) =
     appointment_records seeded \<and>
   handle seeded (Appointment_view (2026, 11, 3) 0 (Some 1) POST Absent (Parsed 2)) = seeded"
proof -
  note unchanged =
    exhausted_ledger_unchanged [OF seeded_get2 seeded_full2, of 0 1 "(2026, 11, 3)" Absent]
  from unchanged have c: "create_appointment seeded 0 1 2 = Inr (None, seeded)"
    by blast
  from unchanged
  have l: "appointment_records (db_after seeded (create_appointment seeded 0 1 2)) =
     appointment_records seeded"
    by blast
  from unchanged
  have h: "handle seeded (Appointment_view (2026, 11, 3) 0 (Some 1) POST Absent (Parsed 2)) = seeded"
    by blast
  from seeded_get2 seeded_full2 c l h show ?thesis by blast
qed

text \<open>
  Claim C5, as the code has it. A booking against a schedule id that the database can
  look up (a 64-bit integer) and that is not in the store is rejected with the
  outcome of a full slot, not with an outcome of its own: \<open>validate_quota\<close> is
  false, \<open>create_appointment\<close> returns \<open>None\<close> and the view answers with the
  slot-full message. No appointment is written and the whole database is what it was.
\<close>

theorem missing_schedule_outcome:
  assumes "in_int64 sid" and "sid \<notin> schedule_id ` set (outpatient_schedules db)"
  shows "query_get db sid = Inr None \<and>
         validate_quota db sid = Inr False \<and>
         create_appointment db now mid sid = Inr (None, db) \<and>
         appointment db today now (Some mid) POST (Parsed d) (Parsed sid) =
           Inr ([Slot_full], Redirect_appointment d, db) \<and>
         appointment db today now (Some mid) POST Absent (Parsed sid) =
           Inr ([Slot_full], Redirect_appointment today, db) \<and>
         handle db (Create_appointment now mid sid) = db \<and>
         handle db (Appointment_view today now (Some mid) POST Absent (Parsed sid)) = db"
proof -
  from assms have get: "query_get db sid = Inr None"
    by (simp add: query_get_None)
  then show ?thesis
    by (simp add: create_appointment_def validate_quota_def appointment_def db_after_def)
qed

text \<open>
  In the seeded database schedule 99 is missing. The view answers the booking with
  the slot-full message, which is its answer for the full schedule 2 as well; and for
  the id \<open>2 ^ 63\<close> the call does not return at all: it raises OverflowError.
\<close>

theorem missing_schedule_counterexample:
  "99 \<notin> schedule_id ` set (outpatient_schedules seeded) \<and>
   appointment seeded (2026, 11, 3) 0 (Some 1) POST Absent (Parsed 99) =
     Inr ([Slot_full], Redirect_appointment (2026, 11, 3), seeded) \<and>
   appointment seeded (2026, 11, 3) 0 (Some 1) POST Absent (Parsed 2) =
     Inr ([Slot_full], Redirect_appointment (2026, 11, 3), seeded) \<and>
   2 ^ 63 \<notin> schedule_id ` set (outpatient_schedules seeded) \<and>
   create_appointment seeded 0 1 (2 ^ 63) = Inl OverflowError \<and>
   validate_quota seeded (2 ^ 63) = Inl OverflowError"
proof -
  have m: "99 \<notin> schedule_id ` set (outpatient_schedules seeded)"
    "2 ^ 63 \<notin> schedule_id ` set (outpatient_schedules seeded)"
    by (simp_all add: seeded_schedules demo_schedules_def)
  have v99: "appointment seeded (2026, 11, 3) 0 (Some 1) POST Absent (Parsed 99) =
     Inr ([Slot_full], Redirect_appointment (2026, 11, 3), seeded)"
    by (simp add: appointment_def validate_quota_def seeded_get99)
  have "validate_quota seeded 2 = Inr False"
    using seeded_full2 by (simp add: validate_quota_def seeded_get2)
  then have v2: "appointment seeded (2026, 11, 3) 0 (Some 1) POST Absent (Parsed 2) =
     Inr ([Slot_full], Redirect_appointment (2026, 11, 3), seeded)"
    by (simp add: appointment_def)
  have big: "\<not> in_int64 (2 ^ 63)" by (simp add: in_int64_def)
  from out_of_range_raises [OF big, of seeded 0 1] m v99 v2 show ?thesis by blast
qed

theorem missing_schedule_outcome_witness:
  "in_int64 99 \<and>
   99 \<notin> schedule_id ` set (outpatient_schedules seeded) \<and>
   create_appointment seeded 0 1 99 = Inr (None, seeded) \<and>
   validate_quota seeded 99 = Inr False \<and>
   appointment seeded (2026, 11, 3) 0 (Some 1) POST Absent (Parsed 99) =
     Inr ([Slot_full], Redirect_appointment (2026, 11, 3), seeded) \<and>
   handle seeded (Create_appointment 0 1 99) = seeded"
proof -
  have r: "in_int64 99" by (simp add: in_int64_def)
  have m: "99 \<notin> schedule_id ` set (outpatient_schedules seeded)"
    by (simp add: seeded_schedules demo_schedules_def)
  note out = missing_schedule_outcome [OF r m, of 0 1 "(2026, 11, 3)" "(2026, 11, 3)"]
  from out have c: "create_appointment seeded 0 1 99 = Inr (None, seeded)" by blast
  from out have v: "validate_quota seeded 99 = Inr False" by blast
  from out have a: "appointment seeded (2026, 11, 3) 0 (Some 1) POST Absent (Parsed 99) =
     Inr ([Slot_full], Redirect_appointment (2026, 11, 3), seeded)" by blast
  from out have h: "handle seeded (Create_appointment 0 1 99) = seeded" by blast
  from r m c v a h show ?thesis by blast
qed

text \<open>
  Claim C9, as the code has it. A booking against a schedule id that the database can
  look up and that is missing, and a booking against an existing schedule with no
  quota left, have the same outcome at every level: \<open>validate_quota\<close> is false for
  both, \<open>create_appointment\<close> returns \<open>None\<close> with the database unchanged for
  both, and the view answers both requests alike (the slot-full message).
\<close>

theorem rejection_reasons_coincide:
  assumes "in_int64 sid_missing"
    and "sid_missing \<notin> schedule_id ` set (outpatient_schedules db)"
    and "query_get db sid_full = Inr (Some s)" and "remaining_quota s \<le> 0"
  shows "validate_quota db sid_missing = validate_quota db sid_full \<and>
         validate_quota db sid_missing = Inr False \<and>
         create_appointment db now mid sid_missing = create_appointment db now mid sid_full \<and>
         create_appointment db now mid sid_missing = Inr (None, db) \<and>
         appointment db today now session meth dstr (Parsed sid_missing) =
         appointment db today now session meth dstr (Parsed sid_full)"
proof -
  from assms(1,2) have get: "query_get db sid_missing = Inr None"
    by (simp add: query_get_None)
  with assms(3,4) show ?thesis
    by (simp add: create_appointment_def validate_quota_def appointment_def Let_def
        split: option.splits param.splits)
qed

text \<open>
  In the seeded database, schedule 99 is missing and schedule 2 is full; the outcomes of
  the two bookings are equal at every level.
\<close>

theorem rejection_reasons_counterexample:
  "query_get seeded 99 = Inr None \<and>
   query_get seeded 2 = Inr (Some (demo_schedules (2026, 11, 3) ! 1)) \<and>
   remaining_quota (demo_schedules (2026, 11, 3) ! 1) = 0 \<and>
   validate_quota seeded 99 = validate_quota seeded 2 \<and>
   create_appointment seeded 0 1 99 = create_appointment seeded 0 1 2 \<and>
   appointment seeded (2026, 11, 3) 0 (Some 1) POST Absent (Parsed 99) =
     appointment seeded (2026, 11, 3) 0 (Some 1) POST Absent (Parsed 2)"
proof -
  have r: "remaining_quota (demo_schedules (2026, 11, 3) ! 1) = 0"
    by (simp add: remaining_quota_def demo_schedules_def)
  have v99: "validate_quota seeded 99 = Inr False"
    by (simp add: validate_quota_def seeded_get99)
  have v2: "validate_quota seeded 2 = Inr False"
    using seeded_full2 by (simp add: validate_quota_def seeded_get2)
  have c99: "create_appointment seeded 0 1 99 = Inr (None, seeded)"
    by (simp add: create_appointment_def seeded_get99)
  have a: "appointment seeded (2026, 11, 3) 0 (Some 1) POST Absent (Parsed 99) =
     appointment seeded (2026, 11, 3) 0 (Some 1) POST Absent (Parsed 2)"
    by (simp add: appointment_def v99 v2)
  from seeded_get99 seeded_get2 r v99 v2 c99 seeded_rejects2 [of 0 1] a show ?thesis
    by (simp only: simp_thms)
qed

theorem rejection_reasons_coincide_witness:
  "in_int64 99 \<and>
   99 \<notin> schedule_id ` set (outpatient_schedules seeded) \<and>
   query_get seeded 2 = Inr (Some (demo_schedules (2026, 11, 3) ! 1)) \<and>
   remaining_quota (demo_schedules (2026, 11, 3) ! 1) \<le> 0 \<and>
   create_appointment seeded 0 1 99 = create_appointment seeded 0 1 2 \<and>
   appointment seeded (2026, 11, 3) 0 (Some 1) POST Absent (Parsed 99) =
     appointment seeded (2026, 11, 3) 0 (Some 1) POST Absent (Parsed 2)"
proof -
  have r: "in_int64 99" by (simp add: in_int64_def)
  have m: "99 \<notin> schedule_id ` set (outpatient_schedules seeded)"
    by (simp add: seeded_schedules demo_schedules_def)
  note same = rejection_reasons_coincide [OF r m seeded_get2 seeded_full2,
      of 0 1 "(2026, 11, 3)" "Some 1" POST Absent]
  from same have c: "create_appointment seeded 0 1 99 = create_appointment seeded 0 1 2"
    by blast
  from same have a: "appointment seeded (2026, 11, 3) 0 (Some 1) POST Absent (Parsed 99) =
     appointment seeded (2026, 11, 3) 0 (Some 1) POST Absent (Parsed 2)"
    by blast
  from r m seeded_get2 seeded_full2 c a show ?thesis by blast
qed

section \<open>Login\<close>





section \<open>A granted booking\<close>

text \<open>
  Claim C10. When \<open>create_appointment(member_id, schedule_id)\<close> returns an
  appointment, the schedule that \<open>query.get(schedule_id)\<close> finds has its
  \<open>current_quota\<close> raised by exactly 1 and no other field changed; every row with
  another id is what it was, and with unique ids the only row that changes is the
  targeted one; members are untouched; the returned record carries the two arguments
  and status \<open>Success\<close>, and it is the one row appended to the appointments.
\<close>

theorem create_appointment_success_frame:
  assumes "create_appointment db now mid sid = Inr (Some a, db')"
  shows "(\<exists>schedule. query_get db sid = Inr (Some schedule) \<and>
            query_get db' sid =
              Inr (Some (schedule\<lparr>current_quota := current_quota schedule + 1\<rparr>))) \<and>
         length (outpatient_schedules db') = length (outpatient_schedules db) \<and>
         (\<forall>i < length (outpatient_schedules db).
            schedule_id (outpatient_schedules db ! i) \<noteq> sid \<longrightarrow>
            outpatient_schedules db' ! i = outpatient_schedules db ! i) \<and>
         (pk_unique db \<longrightarrow>
            (\<forall>i < length (outpatient_schedules db).
               schedule_id (outpatient_schedules db ! i) = sid \<longrightarrow>
               outpatient_schedules db' ! i =
                 (outpatient_schedules db ! i)
                   \<lparr>current_quota := current_quota (outpatient_schedules db ! i) + 1\<rparr>)) \<and>
         members db' = members db \<and>
         appointment_records db' = appointment_records db @ [a] \<and>
         appt_member_id a = mid \<and> appt_schedule_id a = sid \<and> status a = ''Success''"
proof -
  from assms create_appointment_cases [of db now mid sid]
  obtain schedule where get: "query_get db sid = Inr (Some schedule)"
    and pos: "0 < remaining_quota schedule" and mid: "in_int64 mid"
    and a: "a = \<lparr>appointment_id = next_id (map appointment_id (appointment_records db)),
               status = ''Success'', appt_member_id = mid, appt_schedule_id = sid,
               created_at = now\<rparr>"
    and db': "db' = db\<lparr>outpatient_schedules :=
               map (\<lambda>s. if schedule_id s = sid
                        then s\<lparr>current_quota := current_quota schedule + 1\<rparr> else s)
                   (outpatient_schedules db),
            appointment_records := appointment_records db @ [a]\<rparr>"
    by auto
  from get
  have found: "find (\<lambda>r. schedule_id r = sid) (outpatient_schedules db) = Some schedule"
    by (simp add: query_get_Some)
  have get': "query_get db' sid =
      Inr (Some (schedule\<lparr>current_quota := current_quota schedule + 1\<rparr>))"
    using create_appointment_step [OF get, of now mid] pos mid assms
    by (simp add: db_after_def)
  have other: "\<forall>i < length (outpatient_schedules db).
            schedule_id (outpatient_schedules db ! i) \<noteq> sid \<longrightarrow>
            outpatient_schedules db' ! i = outpatient_schedules db ! i"
    by (simp add: db')
  have target: "outpatient_schedules db' ! i =
        (outpatient_schedules db ! i)\<lparr>current_quota := current_quota (outpatient_schedules db ! i) + 1\<rparr>"
    if "pk_unique db" "i < length (outpatient_schedules db)"
       "schedule_id (outpatient_schedules db ! i) = sid" for i
  proof -
    have "outpatient_schedules db ! i = schedule"
      using find_pk_unique [of schedule_id sid "outpatient_schedules db" schedule
          "outpatient_schedules db ! i"] found that
      by (simp add: pk_unique_def)
    with that show ?thesis by (simp add: db')
  qed
  from get get' other target show ?thesis
    by (simp add: a db')
qed

theorem create_appointment_success_frame_witness:
  "create_appointment seeded 7 1 3 =
     Inr (Some \<lparr>appointment_id = 1, status = ''Success'', appt_member_id = 1,
            appt_schedule_id = 3, created_at = 7\<rparr>,
      db_after seeded (create_appointment seeded 7 1 3)) \<and>
   pk_unique seeded \<and>
   current_quota (outpatient_schedules seeded ! 2) = 1 \<and>
   current_quota (outpatient_schedules (db_after seeded (create_appointment seeded 7 1 3)) ! 2) = 2 \<and>
   outpatient_schedules (db_after seeded (create_appointment seeded 7 1 3)) ! 0 =
     outpatient_schedules seeded ! 0 \<and>
   outpatient_schedules (db_after seeded (create_appointment seeded 7 1 3)) ! 1 =
     outpatient_schedules seeded ! 1 \<and>
   appointment_records (db_after seeded (create_appointment seeded 7 1 3)) =
     [\<lparr>appointment_id = 1, status = ''Success'', appt_member_id = 1,
       appt_schedule_id = 3, created_at = 7\<rparr>]"
proof -
  have c: "create_appointment seeded 7 1 3 =
     Inr (Some \<lparr>appointment_id = 1, status = ''Success'', appt_member_id = 1,
            appt_schedule_id = 3, created_at = 7\<rparr>,
      db_after seeded (create_appointment seeded 7 1 3))"
    by (simp add: create_appointment_def seeded_get3 remaining_quota_def demo_schedules_def
        seeded_records next_id_def in_int64_def db_after_def Let_def)
  have p: "pk_unique seeded" unfolding seeded_def by (rule pk_unique_init)
  note frame = create_appointment_success_frame [OF c]
  from frame have others: "\<forall>i < length (outpatient_schedules seeded).
      schedule_id (outpatient_schedules seeded ! i) \<noteq> 3 \<longrightarrow>
      outpatient_schedules (db_after seeded (create_appointment seeded 7 1 3)) ! i =
        outpatient_schedules seeded ! i"
    by blast
  from frame p have target: "\<forall>i < length (outpatient_schedules seeded).
      schedule_id (outpatient_schedules seeded ! i) = 3 \<longrightarrow>
      outpatient_schedules (db_after seeded (create_appointment seeded 7 1 3)) ! i =
        (outpatient_schedules seeded ! i)
          \<lparr>current_quota := current_quota (outpatient_schedules seeded ! i) + 1\<rparr>"
    by blast
  from frame have recs: "appointment_records (db_after seeded (create_appointment seeded 7 1 3)) =
      appointment_records seeded @
        [\<lparr>appointment_id = 1, status = ''Success'', appt_member_id = 1,
          appt_schedule_id = 3, created_at = 7\<rparr>]"
    by blast
  have r0: "outpatient_schedules (db_after seeded (create_appointment seeded 7 1 3)) ! 0 =
      outpatient_schedules seeded ! 0"
    using others [rule_format, of 0] by (simp add: seeded_schedules demo_schedules_def)
  have r1: "outpatient_schedules (db_after seeded (create_appointment seeded 7 1 3)) ! 1 =
      outpatient_schedules seeded ! 1"
    using others [rule_format, of 1] by (simp add: seeded_schedules demo_schedules_def)
  have r2: "outpatient_schedules (db_after seeded (create_appointment seeded 7 1 3)) ! 2 =
      (outpatient_schedules seeded ! 2)\<lparr>current_quota := 2\<rparr>"
    using target [rule_format, of 2] by (simp add: seeded_schedules demo_schedules_def)
  show ?thesis
    using c p r0 r1 r2 recs by (simp add: seeded_schedules seeded_records demo_schedules_def)
qed

section \<open>Listing the schedules of a date\<close>

text \<open>
  Claim C6, as the code has it. \<open>get_available_schedules\<close> returns exactly the
  schedules of the store whose date is the given one, in the order the store holds
  them: the result is a subsequence of the table. Nothing sorts it by time slot.
\<close>

theorem schedules_by_date:
  "set (get_available_schedules db d) = {s \<in> set (outpatient_schedules db). date s = d} \<and>
   subseq (get_available_schedules db d) (outpatient_schedules db) \<and>
   (distinct (outpatient_schedules db) \<longrightarrow> distinct (get_available_schedules db d))"
  by (auto simp: get_available_schedules_def)

text \<open>
  In a store whose 14:00 schedule was entered before its 09:00 schedule of the same
  day, the listing has the 14:00 schedule first: it is not ascending by time slot.
\<close>

theorem schedules_by_date_counterexample:
  "map schedule_id (get_available_schedules unordered_store (2026, 11, 3)) = [1, 2] \<and>
   map time_slot (get_available_schedules unordered_store (2026, 11, 3)) =
     [''14:00-15:00'', ''09:00-10:00''] \<and>
   \<not> sorted (map time_slot (get_available_schedules unordered_store (2026, 11, 3)))"
  by (simp add: get_available_schedules_def unordered_store_def less_eq_char_def)

theorem schedules_by_date_witness:
  "set (get_available_schedules unordered_store (2026, 11, 3)) =
     set (outpatient_schedules unordered_store) \<and>
   subseq (get_available_schedules unordered_store (2026, 11, 3))
     (outpatient_schedules unordered_store) \<and>
   distinct (outpatient_schedules unordered_store) \<and>
   distinct (get_available_schedules unordered_store (2026, 11, 3))"
proof -
  have d: "distinct (outpatient_schedules unordered_store)"
    by (simp add: unordered_store_def)
  have all: "{s \<in> set (outpatient_schedules unordered_store). date s = (2026, 11, 3)} =
      set (outpatient_schedules unordered_store)"
    by (auto simp: unordered_store_def)
  from schedules_by_date [of unordered_store "(2026, 11, 3)"] d all
  show ?thesis by simp
qed

section \<open>Runs of bookings\<close>

lemma create_appointment_outcome:
  "appointment_records (db_after db (create_appointment db now mid sid)) =
     appointment_records db @ granted [map_sum id fst (create_appointment db now mid sid)] \<and>
   (\<forall>a. map_sum id fst (create_appointment db now mid sid) = Inr (Some a) \<longrightarrow>
      created_at a = now \<and> appt_member_id a = mid)"
  using create_appointment_cases [of db now mid sid] by (auto simp: db_after_def)

lemma run_bookings_Cons:
  assumes "run_bookings db ((now, mid, sid) # reqs) = (outs, db')"
  shows "\<exists>rs. outs = map_sum id fst (create_appointment db now mid sid) # rs \<and>
           run_bookings (db_after db (create_appointment db now mid sid)) reqs = (rs, db')"
proof (cases "create_appointment db now mid sid")
  case (Inl e)
  obtain rs db2 where run: "run_bookings db reqs = (rs, db2)" by fastforce
  with assms Inl have "outs = Inl e # rs" "db' = db2" by simp_all
  with Inl run show ?thesis by (simp add: db_after_def)
next
  case (Inr pair)
  obtain r db1 where pair: "pair = (r, db1)" by (cases pair)
  obtain rs db2 where run: "run_bookings db1 reqs = (rs, db2)" by fastforce
  with assms Inr pair have "outs = Inr r # rs" "db' = db2" by simp_all
  with Inr pair run show ?thesis by (simp add: db_after_def)
qed

lemma run_bookings_records:
  "run_bookings db reqs = (outs, db') \<Longrightarrow>
   appointment_records db' = appointment_records db @ granted outs"
proof (induction reqs arbitrary: db outs db')
  case Nil
  then show ?case by simp
next
  case (Cons req reqs)
  obtain now mid sid where req: "req = (now, mid, sid)" by (cases req)
  from run_bookings_Cons [OF Cons.prems [unfolded req]] obtain rs
    where outs: "outs = map_sum id fst (create_appointment db now mid sid) # rs"
      and run: "run_bookings (db_after db (create_appointment db now mid sid)) reqs = (rs, db')"
    by blast
  from Cons.IH [OF run] create_appointment_outcome [of db now mid sid] outs show ?case
    by (cases "map_sum id fst (create_appointment db now mid sid)" rule: is_granted.cases)
       simp_all
qed

lemma run_bookings_times:
  "run_bookings db reqs = (outs, db') \<Longrightarrow> subseq (map created_at (granted outs)) (map fst reqs)"
proof (induction reqs arbitrary: db outs db')
  case Nil
  then show ?case by simp
next
  case (Cons req reqs)
  obtain now mid sid where req: "req = (now, mid, sid)" by (cases req)
  from run_bookings_Cons [OF Cons.prems [unfolded req]] obtain rs
    where outs: "outs = map_sum id fst (create_appointment db now mid sid) # rs"
      and run: "run_bookings (db_after db (create_appointment db now mid sid)) reqs = (rs, db')"
    by blast
  from Cons.IH [OF run] create_appointment_outcome [of db now mid sid] outs req show ?case
    by (cases "map_sum id fst (create_appointment db now mid sid)" rule: is_granted.cases)
       (auto intro: list_emb_Cons)
qed

lemma run_bookings_count:
  "run_bookings db reqs = (outs, db') \<Longrightarrow>
   length (filter (\<lambda>a. appt_member_id a = m) (granted outs)) = bookings_by m reqs outs"
proof (induction reqs arbitrary: db outs db')
  case Nil
  then show ?case by (simp add: bookings_by_def)
next
  case (Cons req reqs)
  obtain now mid sid where req: "req = (now, mid, sid)" by (cases req)
  from run_bookings_Cons [OF Cons.prems [unfolded req]] obtain rs
    where outs: "outs = map_sum id fst (create_appointment db now mid sid) # rs"
      and run: "run_bookings (db_after db (create_appointment db now mid sid)) reqs = (rs, db')"
    by blast
  from Cons.IH [OF run] create_appointment_outcome [of db now mid sid] outs req show ?case
    by (cases "map_sum id fst (create_appointment db now mid sid)" rule: is_granted.cases)
       (simp_all add: bookings_by_def)
qed

text \<open>
  Bookings made one after the other against one schedule with \<open>k\<close> places left, for
  member ids the database can store: the first \<open>k\<close> are granted and all later ones
  are rejected.
\<close>

lemma sequential_bookings:
  assumes "query_get db sid = Inr (Some s)" and "remaining_quota s = int k"
    and "\<forall>req \<in> set reqs. snd (snd req) = sid \<and> in_int64 (fst (snd req))"
    and "run_bookings db reqs = (outs, db')"
  shows "map is_granted outs =
           replicate (min k (length reqs)) True @ replicate (length reqs - k) False"
  using assms
proof (induction reqs arbitrary: db s k outs db')
  case Nil
  then show ?case by simp
next
  case (Cons req reqs)
  obtain now mid where req: "req = (now, mid, sid)" and mid: "in_int64 mid"
    using Cons.prems(3) by (cases req) auto
  from run_bookings_Cons [OF Cons.prems(4) [unfolded req]] obtain rs
    where outs: "outs = map_sum id fst (create_appointment db now mid sid) # rs"
      and run: "run_bookings (db_after db (create_appointment db now mid sid)) reqs = (rs, db')"
    by blast
  from Cons.prems(3)
  have all: "\<forall>req \<in> set reqs. snd (snd req) = sid \<and> in_int64 (fst (snd req))" by simp
  note step = create_appointment_step [OF Cons.prems(1), of now mid]
  show ?case
  proof (cases k)
    case 0
    with Cons.prems(2) step have c: "create_appointment db now mid sid = Inr (None, db)"
      by simp
    then have "db_after db (create_appointment db now mid sid) = db"
      by (simp add: db_after_def)
    with Cons.IH [OF Cons.prems(1) _ all, of 0 rs db'] run Cons.prems(2) 0 outs c show ?thesis
      by (simp flip: replicate_Suc)
  next
    case (Suc j)
    with Cons.prems(2) step mid
    obtain a where c: "create_appointment db now mid sid =
        Inr (Some a, db_after db (create_appointment db now mid sid))"
      and g: "query_get (db_after db (create_appointment db now mid sid)) sid =
        Inr (Some (s\<lparr>current_quota := current_quota s + 1\<rparr>))"
      by auto
    from c have x: "map_sum id fst (create_appointment db now mid sid) = Inr (Some a)"
      by (metis fst_conv map_sum.simps(2))
    from Cons.prems(2) Suc
    have "remaining_quota (s\<lparr>current_quota := current_quota s + 1\<rparr>) = int j"
      by (simp add: remaining_quota_def)
    from Cons.IH [OF g this all run] x outs Suc show ?thesis by simp
  qed
qed

section \<open>The appointments of a member\<close>

lemma sorted_wrt_subseq:
  "subseq xs ys \<Longrightarrow> sorted_wrt P ys \<Longrightarrow> sorted_wrt P xs"
proof (induction rule: list_emb.induct)
  case (list_emb_Nil ys)
  then show ?case by simp
next
  case (list_emb_Cons xs ys y)
  then show ?case by simp
next
  case (list_emb_Cons2 x y xs ys)
  then show ?case by (auto dest: list_emb_set)
qed

lemma insort_key_last:
  "\<forall>y \<in> set ys. f y < f x \<Longrightarrow> insort_key f x ys = ys @ [x]"
  by (induction ys) auto

lemma sort_key_desc_rev:
  fixes g :: "'a \<Rightarrow> int"
  shows "sorted_wrt (<) (map g xs) \<Longrightarrow> sort_key (\<lambda>a. - g a) xs = rev xs"
  by (induction xs) (auto simp: insort_key_last)

lemma sorted_desc:
  fixes g :: "'a \<Rightarrow> int"
  shows "sorted_wrt (\<ge>) (map g (sort_key (\<lambda>a. - g a) xs))"
  using sorted_sort_key [of "\<lambda>a. - g a" xs] by (simp add: sorted_wrt_map)

text \<open>
  Claim C7, as the code has it. Starting from an empty appointment table, after a run
  of bookings the listing of member \<open>m\<close> (the query of \<open>my_appointments\<close>) has
  exactly as many entries as the member made successful bookings, holds exactly the
  member's rows, and is ordered by \<open>created_at\<close>, most recent first. When the
  clock values of the inserts rise strictly along the run, the listing is the reverse
  of the insertion order of the member's rows.
\<close>

theorem list_by_member_after_bookings:
  assumes "appointment_records db = []" and "run_bookings db reqs = (outs, db')"
  shows "length (list_by_member db' m) = bookings_by m reqs outs \<and>
         sorted_wrt (\<ge>) (map created_at (list_by_member db' m)) \<and>
         set (list_by_member db' m) = {a \<in> set (appointment_records db'). appt_member_id a = m} \<and>
         my_appointments db' (Some m) = ([], Render_my_appointments (list_by_member db' m)) \<and>
         (sorted_wrt (<) (map fst reqs) \<longrightarrow>
            list_by_member db' m =
              rev (filter (\<lambda>a. appt_member_id a = m) (appointment_records db')))"
proof -
  from run_bookings_records [OF assms(2)] assms(1)
  have recs: "appointment_records db' = granted outs" by simp
  have len: "length (list_by_member db' m) = bookings_by m reqs outs"
    using run_bookings_count [OF assms(2), of m] by (simp add: list_by_member_def recs)
  have desc: "sorted_wrt (\<ge>) (map created_at (list_by_member db' m))"
    unfolding list_by_member_def by (rule sorted_desc)
  have mem: "set (list_by_member db' m) = {a \<in> set (appointment_records db'). appt_member_id a = m}"
    by (auto simp: list_by_member_def)
  have view: "my_appointments db' (Some m) = ([], Render_my_appointments (list_by_member db' m))"
    by (simp add: my_appointments_def)
  have ord: "list_by_member db' m = rev (filter (\<lambda>a. appt_member_id a = m) (appointment_records db'))"
    if "sorted_wrt (<) (map fst reqs)"
  proof -
    from that run_bookings_times [OF assms(2)]
    have "sorted_wrt (<) (map created_at (appointment_records db'))"
      by (simp add: recs sorted_wrt_subseq)
    then have "sorted_wrt (<) (map created_at
        (filter (\<lambda>a. appt_member_id a = m) (appointment_records db')))"
      by (simp add: sorted_wrt_map sorted_wrt_filter)
    then show ?thesis
      unfolding list_by_member_def by (rule sort_key_desc_rev)
  qed
  from len desc mem view ord show ?thesis by simp
qed

lemma backward_clock_run:
  "appointment_records (snd (run_bookings seeded backward_clock)) =
     [\<lparr>appointment_id = 1, status = ''Success'', appt_member_id = 1,
       appt_schedule_id = 1, created_at = 5\<rparr>,
      \<lparr>appointment_id = 2, status = ''Success'', appt_member_id = 1,
       appt_schedule_id = 1, created_at = 3\<rparr>] \<and>
   fst (run_bookings seeded backward_clock) =
     [Inr (Some \<lparr>appointment_id = 1, status = ''Success'', appt_member_id = 1,
       appt_schedule_id = 1, created_at = 5\<rparr>),
      Inr (Some \<lparr>appointment_id = 2, status = ''Success'', appt_member_id = 1,
       appt_schedule_id = 1, created_at = 3\<rparr>)]"
  by (simp add: backward_clock_def create_appointment_def query_get_def in_int64_def
      seeded_schedules seeded_records demo_schedules_def remaining_quota_def next_id_def Let_def)

text \<open>
  Member 1 books twice in the seeded database; the clock is set back between the two
  inserts (5, then 3). Both bookings succeed. The listing, by \<open>created_at\<close>
  descending, has appointment 1 before appointment 2, which is the insertion order,
  not its reverse.
\<close>

theorem list_by_member_counterexample:
  "bookings_by 1 backward_clock (fst (run_bookings seeded backward_clock)) = 2 \<and>
   map appointment_id (list_by_member (snd (run_bookings seeded backward_clock)) 1) = [1, 2] \<and>
   map appointment_id (rev (filter (\<lambda>a. appt_member_id a = 1)
     (appointment_records (snd (run_bookings seeded backward_clock))))) = [2, 1] \<and>
   list_by_member (snd (run_bookings seeded backward_clock)) 1 \<noteq>
     rev (filter (\<lambda>a. appt_member_id a = 1)
       (appointment_records (snd (run_bookings seeded backward_clock))))"
  by (simp add: backward_clock_run list_by_member_def bookings_by_def)
     (simp add: backward_clock_def)

theorem list_by_member_after_bookings_witness:
  "appointment_records seeded = [] \<and>
   sorted_wrt (<) (map fst two_members) \<and>
   bookings_by 1 two_members (fst (run_bookings seeded two_members)) = 2 \<and>
   length (list_by_member (snd (run_bookings seeded two_members)) 1) = 2 \<and>
   list_by_member (snd (run_bookings seeded two_members)) 1 =
     rev (filter (\<lambda>a. appt_member_id a = 1)
       (appointment_records (snd (run_bookings seeded two_members))))"
proof -
  have run: "run_bookings seeded two_members =
      (fst (run_bookings seeded two_members), snd (run_bookings seeded two_members))"
    by simp
  have inc: "sorted_wrt (<) (map fst two_members)"
    by (simp add: two_members_def)
  have outs: "fst (run_bookings seeded two_members) =
     [Inr (Some \<lparr>appointment_id = 1, status = ''Success'', appt_member_id = 1,
       appt_schedule_id = 1, created_at = 5\<rparr>),
      Inr None,
      Inr (Some \<lparr>appointment_id = 2, status = ''Success'', appt_member_id = 1,
       appt_schedule_id = 3, created_at = 8\<rparr>),
      Inr None]"
    by (simp add: two_members_def create_appointment_def query_get_def in_int64_def
      seeded_schedules seeded_records demo_schedules_def remaining_quota_def next_id_def Let_def)
  have n: "bookings_by 1 two_members (fst (run_bookings seeded two_members)) = 2"
    by (simp add: outs bookings_by_def) (simp add: two_members_def)
  note after = list_by_member_after_bookings [OF seeded_records run, of 1]
  from after n have len: "length (list_by_member (snd (run_bookings seeded two_members)) 1) = 2"
    by simp
  from after inc have ord: "list_by_member (snd (run_bookings seeded two_members)) 1 =
     rev (filter (\<lambda>a. appt_member_id a = 1)
       (appointment_records (snd (run_bookings seeded two_members))))"
    by blast
  from inc n len ord show ?thesis
    by (simp only: seeded_records simp_thms)
qed

end
